theory Spec2Isabelle
  imports Complex_Main "HOL-Library.Char_ord" "HOL-Library.List_Lexorder"
begin

section \<open>Daily reconciliation pipeline (auto\_main.py) and the SLA report (SLA.py)\<close>

text \<open>
  A shallow embedding of class \<open>EveryDayAuto\<close> of \<^verbatim>\<open>auto_main.py\<close> and of the status
  table of class \<open>SLA\<close> of \<^verbatim>\<open>SLA.py\<close>.

  Python strings are modelled by \<open>string\<close>, holding the UTF-8 bytes of the text; the
  Cyrillic literals of the source are written out byte by byte. Exceptions are values of
  type \<open>error\<close>; a method that may raise returns a sum with \<open>Inl\<close> for the exception.
\<close>

subsection \<open>Exceptions\<close>

datatype error =
    KeyError string
  | TypeError
  | AttributeError
  | IndexError
  | ValueError
  | OverflowError
  | FileNotFoundError
  | NotADirectoryError
  | FileExistsError
  | OSError
  | DatabaseError
  | NameError

subsection \<open>Status tables\<close>

text \<open>The Cyrillic labels of the two \<open>STATUS_DICT\<close> tables, as UTF-8 bytes.\<close>

definition label_in_processing :: string where
  \<comment> \<open>"V obrabotke" (in processing)\<close>
  "label_in_processing =
     [CHR 0xD0, CHR 0x92, CHR '' '', CHR 0xD0, CHR 0xBE, CHR 0xD0, CHR 0xB1, CHR 0xD1, CHR 0x80,
      CHR 0xD0, CHR 0xB0, CHR 0xD0, CHR 0xB1, CHR 0xD0, CHR 0xBE, CHR 0xD1, CHR 0x82, CHR 0xD0,
      CHR 0xBA, CHR 0xD0, CHR 0xB5]"

definition label_failed :: string where
  \<comment> \<open>"Proval'no" (failed)\<close>
  "label_failed =
     [CHR 0xD0, CHR 0x9F, CHR 0xD1, CHR 0x80, CHR 0xD0, CHR 0xBE, CHR 0xD0, CHR 0xB2, CHR 0xD0,
      CHR 0xB0, CHR 0xD0, CHR 0xBB, CHR 0xD1, CHR 0x8C, CHR 0xD0, CHR 0xBD, CHR 0xD0, CHR 0xBE]"

definition label_our_fault :: string where
  \<comment> \<open>"Feil po nashei vine" (failed, our fault)\<close>
  "label_our_fault =
     [CHR 0xD0, CHR 0xA4, CHR 0xD0, CHR 0xB5, CHR 0xD0, CHR 0xB9, CHR 0xD0, CHR 0xBB, CHR '' '',
      CHR 0xD0, CHR 0xBF, CHR 0xD0, CHR 0xBE, CHR '' '', CHR 0xD0, CHR 0xBD, CHR 0xD0, CHR 0xB0,
      CHR 0xD1, CHR 0x88, CHR 0xD0, CHR 0xB5, CHR 0xD0, CHR 0xB9, CHR '' '', CHR 0xD0, CHR 0xB2,
      CHR 0xD0, CHR 0xB8, CHR 0xD0, CHR 0xBD, CHR 0xD0, CHR 0xB5]"

definition label_cancelled :: string where
  \<comment> \<open>"Otmeneno" (cancelled)\<close>
  "label_cancelled =
     [CHR 0xD0, CHR 0x9E, CHR 0xD1, CHR 0x82, CHR 0xD0, CHR 0xBC, CHR 0xD0, CHR 0xB5, CHR 0xD0,
      CHR 0xBD, CHR 0xD0, CHR 0xB5, CHR 0xD0, CHR 0xBD, CHR 0xD0, CHR 0xBE]"

definition label_expired :: string where
  \<comment> \<open>"Istek" (expired)\<close>
  "label_expired =
     [CHR 0xD0, CHR 0x98, CHR 0xD1, CHR 0x81, CHR 0xD1, CHR 0x82, CHR 0xD0, CHR 0xB5, CHR 0xD0,
      CHR 0xBA]"

definition label_zeroed :: string where
  \<comment> \<open>"Obnulenie" (zeroing out)\<close>
  "label_zeroed =
     [CHR 0xD0, CHR 0x9E, CHR 0xD0, CHR 0xB1, CHR 0xD0, CHR 0xBD, CHR 0xD1, CHR 0x83, CHR 0xD0,
      CHR 0xBB, CHR 0xD0, CHR 0xB5, CHR 0xD0, CHR 0xBD, CHR 0xD0, CHR 0xB8, CHR 0xD0, CHR 0xB5]"

definition label_cancelled_before_details :: string where
  \<comment> \<open>"Otmena do rekvizitov" (cancelled before bank details)\<close>
  "label_cancelled_before_details =
     [CHR 0xD0, CHR 0x9E, CHR 0xD1, CHR 0x82, CHR 0xD0, CHR 0xBC, CHR 0xD0, CHR 0xB5, CHR 0xD0,
      CHR 0xBD, CHR 0xD0, CHR 0xB0, CHR '' '', CHR 0xD0, CHR 0xB4, CHR 0xD0, CHR 0xBE, CHR '' '',
      CHR 0xD1, CHR 0x80, CHR 0xD0, CHR 0xB5, CHR 0xD0, CHR 0xBA, CHR 0xD0, CHR 0xB2, CHR 0xD0,
      CHR 0xB8, CHR 0xD0, CHR 0xB7, CHR 0xD0, CHR 0xB8, CHR 0xD1, CHR 0x82, CHR 0xD0, CHR 0xBE,
      CHR 0xD0, CHR 0xB2]"

text \<open>\<open>EveryDayAuto.STATUS_DICT\<close> (auto\_main.py, lines 46 to 55).\<close>

definition STATUS_DICT :: "int \<Rightarrow> string option" where
  "STATUS_DICT = map_of
     [(2, label_in_processing),
      (3, label_failed),
      (4, ''Succeed''),
      (8, label_our_fault),
      (10, label_cancelled),
      (11, label_expired),
      (12, ''Reversal''),
      (13, label_cancelled_before_details)]"

text \<open>\<open>SLA.STATUS_DICT\<close> (SLA.py, lines 43 to 46).\<close>

definition SLA_STATUS_DICT :: "int \<Rightarrow> string option" where
  "SLA_STATUS_DICT = map_of
     [(2, label_in_processing), (3, label_failed), (4, ''Succeed''), (8, label_our_fault),
      (10, label_cancelled), (11, label_expired), (12, label_zeroed),
      (13, label_cancelled_before_details)]"

subsection \<open>Dates and times\<close>

text \<open>
  A naive \<open>datetime\<close> is its proleptic Gregorian ordinal (\<open>toordinal()\<close>: day 1 is
  0001-01-01, a Monday) together with its time of day. Python's own date arithmetic goes
  through the ordinal, and \<open>weekday()\<close> is \<open>(toordinal() + 6) % 7\<close>. A \<open>timedelta\<close> is its
  total number of microseconds.
\<close>

record datetime =
  ordinal :: int
  hour :: int
  minute :: int
  second :: int
  microsecond :: int

type_synonym timedelta = int

definition valid_datetime :: "datetime \<Rightarrow> bool" where
  "valid_datetime d \<longleftrightarrow>
     1 \<le> ordinal d \<and> ordinal d \<le> 3652059 \<and> 0 \<le> hour d \<and> hour d \<le> 23 \<and>
     0 \<le> minute d \<and> minute d \<le> 59 \<and> 0 \<le> second d \<and> second d \<le> 59 \<and>
     0 \<le> microsecond d \<and> microsecond d \<le> 999999"

definition weekday :: "datetime \<Rightarrow> int" where
  "weekday d = (ordinal d + 6) mod 7"

definition days :: "int \<Rightarrow> timedelta" where
  "days n = n * 86400000000"

definition to_microseconds :: "datetime \<Rightarrow> int" where
  "to_microseconds d =
     (((ordinal d * 24 + hour d) * 60 + minute d) * 60 + second d) * 1000000 + microsecond d"

text \<open>\<open>a - b\<close> on two datetimes, and \<open>a < b\<close>.\<close>

definition datetime_diff :: "datetime \<Rightarrow> datetime \<Rightarrow> timedelta" where
  "datetime_diff a b = to_microseconds a - to_microseconds b"

definition datetime_less :: "datetime \<Rightarrow> datetime \<Rightarrow> bool" where
  "datetime_less a b \<longleftrightarrow> to_microseconds a < to_microseconds b"

text \<open>\<open>d - timedelta(days=n)\<close>: raises OverflowError before year 1.\<close>

definition minus_days :: "datetime \<Rightarrow> int \<Rightarrow> error + datetime" where
  "minus_days d n =
     (if ordinal d - n < 1 \<or> 3652059 < ordinal d - n then Inl OverflowError
      else Inr (d\<lparr>ordinal := ordinal d - n\<rparr>))"

text \<open>\<open>d.replace(hour=h, minute=0, second=0, microsecond=0)\<close>: raises ValueError unless
  \<open>h\<close> is in \<open>0..23\<close>.\<close>

definition replace_hour :: "datetime \<Rightarrow> int \<Rightarrow> error + datetime" where
  "replace_hour d h =
     (if 0 \<le> h \<and> h \<le> 23 then Inr (d\<lparr>hour := h, minute := 0, second := 0, microsecond := 0\<rparr>)
      else Inl ValueError)"

text \<open>
  \<open>EveryDayAuto.get_current_day\<close> (lines 110 to 139). The reading of the clock,
  \<open>datetime.now()\<close>, is the parameter \<open>today\<close>; the source's default for \<open>delta_time\<close> is 0.
\<close>

definition get_current_day :: "datetime \<Rightarrow> int \<Rightarrow> error + (datetime \<times> datetime)" where
  "get_current_day today delta_time =
     (case minus_days today (if weekday today = 0 then 3 else 1) of
        Inl e \<Rightarrow> Inl e
      | Inr yesterday \<Rightarrow>
          (case replace_hour yesterday delta_time of
             Inl e \<Rightarrow> Inl e
           | Inr start_of_yesterday \<Rightarrow>
               (case replace_hour today delta_time of
                  Inl e \<Rightarrow> Inl e
                | Inr stop_of_yesterday \<Rightarrow> Inr (start_of_yesterday, stop_of_yesterday))))"

subsection \<open>Data frames\<close>

text \<open>
  A pandas cell is Python's \<open>None\<close>, a missing number or time (\<open>NaN\<close> and \<open>NaT\<close> are both
  \<open>Null\<close>), an integer, a text, a Float64 or a timestamp (nanoseconds since 1970-01-01, as
  pandas stores it); \<open>pd.isna\<close> holds of \<open>None\<close>, \<open>NaN\<close> and \<open>NaT\<close>.
  Float64 values are kept abstract: the type \<open>'f\<close> and the two operations the pipeline
  performs on them are parameters (see \<open>env\<close> below), so that nothing proved here depends
  on how IEEE arithmetic rounds.

  A row maps column names to cells; the frame lists which columns exist, and a row's
  value at a name that is not a column is never read. Rows are kept in frame order, so
  \<open>reset_index(drop=True)\<close> is the identity.
\<close>

datatype 'f cell = NoneC | Null | IntC int | StrC string | FltC 'f | TimeC int

fun is_na :: "'f cell \<Rightarrow> bool" where
  "is_na NoneC = True"
| "is_na Null = True"
| "is_na _ = False"

type_synonym 'f row = "string \<Rightarrow> 'f cell"

record 'f dataframe =
  columns :: "string list"
  rows :: "'f row list"

definition empty_frame :: "'f dataframe" where
  \<comment> \<open>\<open>pd.DataFrame()\<close>\<close>
  "empty_frame = \<lparr>columns = [], rows = []\<rparr>"

definition is_empty :: "'f dataframe \<Rightarrow> bool" where
  \<comment> \<open>\<open>df.empty\<close>: some axis has length 0\<close>
  "is_empty df \<longleftrightarrow> rows df = [] \<or> columns df = []"

definition cell_at :: "'f dataframe \<Rightarrow> 'f row \<Rightarrow> string \<Rightarrow> 'f cell" where
  "cell_at df r c = (if c \<in> set (columns df) then r c else Null)"

text \<open>\<open>df[c] = f(row)\<close>: overwrites the column, or appends it when it is new.\<close>

definition assign :: "'f dataframe \<Rightarrow> string \<Rightarrow> ('f row \<Rightarrow> 'f cell) \<Rightarrow> 'f dataframe" where
  "assign df c f =
     df\<lparr>columns := (if c \<in> set (columns df) then columns df else columns df @ [c]),
        rows := map (\<lambda>r. r(c := f r)) (rows df)\<rparr>"

text \<open>Applying a function that may raise to every element; the first exception wins.\<close>

fun map_err :: "('a \<Rightarrow> error + 'b) \<Rightarrow> 'a list \<Rightarrow> error + 'b list" where
  "map_err f [] = Inr []"
| "map_err f (x # xs) =
     (case f x of
        Inl e \<Rightarrow> Inl e
      | Inr y \<Rightarrow> (case map_err f xs of Inl e \<Rightarrow> Inl e | Inr ys \<Rightarrow> Inr (y # ys)))"

text \<open>\<open>df[c] = df[c].apply(f)\<close> and the like: KeyError when the column is absent.\<close>

definition apply_column ::
  "string \<Rightarrow> ('f cell \<Rightarrow> error + 'f cell) \<Rightarrow> 'f dataframe \<Rightarrow> error + 'f dataframe" where
  "apply_column c f df =
     (if c \<notin> set (columns df) then Inl (KeyError c)
      else (case map_err (\<lambda>r. f (r c)) (rows df) of
              Inl e \<Rightarrow> Inl e
            | Inr vs \<Rightarrow> Inr (df\<lparr>rows := map2 (\<lambda>r v. r(c := v)) (rows df) vs\<rparr>)))"

text \<open>\<open>Series.unique()\<close> and \<open>drop_duplicates(key)\<close> keep first occurrences in order.\<close>

fun keep_first :: "('a \<Rightarrow> 'k) \<Rightarrow> 'k list \<Rightarrow> 'a list \<Rightarrow> 'a list" where
  "keep_first key seen [] = []"
| "keep_first key seen (x # xs) =
     (if key x \<in> set seen then keep_first key seen xs
      else x # keep_first key (key x # seen) xs)"

definition unique :: "'a list \<Rightarrow> 'a list" where
  "unique xs = keep_first (\<lambda>x. x) [] xs"

definition drop_duplicates :: "string \<Rightarrow> 'f dataframe \<Rightarrow> error + 'f dataframe" where
  "drop_duplicates c df =
     (if c \<notin> set (columns df) then Inl (KeyError c)
      else Inr (df\<lparr>rows := keep_first (\<lambda>r. r c) [] (rows df)\<rparr>))"

text \<open>
  \<open>sort_values(c)\<close> sorts with numpy's quicksort, which is not stable: the keys do not
  fix which of two rows with the same key comes first. The order is therefore taken
  from outside: given the cells of the sort column, \<open>order\<close> answers as \<open>argsort\<close> does,
  with the positions of the rows in the order in which they are put, or with the
  exception of a comparison that the cells do not support. pandas then takes the rows at
  these positions (an IndexError if a position were out of range).
\<close>

definition sort_values ::
  "('f cell list \<Rightarrow> error + nat list) \<Rightarrow> string \<Rightarrow> 'f dataframe \<Rightarrow> error + 'f dataframe" where
  "sort_values order c df =
     (if c \<notin> set (columns df) then Inl (KeyError c)
      else (case order (map (\<lambda>r. r c) (rows df)) of
              Inl e \<Rightarrow> Inl e
            | Inr idx \<Rightarrow>
                if list_all (\<lambda>i. i < length (rows df)) idx
                then Inr (df\<lparr>rows := map (\<lambda>i. rows df ! i) idx\<rparr>)
                else Inl IndexError))"

text \<open>What every sort promises: the positions it returns are a permutation of the
  positions of the column.\<close>

definition permuting :: "('f cell list \<Rightarrow> error + nat list) \<Rightarrow> bool" where
  "permuting order \<longleftrightarrow>
     (\<forall>cells idx. order cells = Inr idx \<longrightarrow> distinct idx \<and> set idx = {0..<length cells})"

subsection \<open>Configuration\<close>

record client_config =
  columns_filter :: string
  plus_time :: int

definition CLIENTS :: "(int \<times> client_config) list" where
  "CLIENTS =
     [(1282, \<lparr>columns_filter = ''accepted_at'', plus_time = 0\<rparr>),
      (1130, \<lparr>columns_filter = ''accepted_at'', plus_time = 0\<rparr>),
      (606, \<lparr>columns_filter = ''accepted_at'', plus_time = 0\<rparr>),
      (1359, \<lparr>columns_filter = ''accepted_at'', plus_time = 0\<rparr>),
      (741, \<lparr>columns_filter = ''accepted_at'', plus_time = 0\<rparr>),
      (1160, \<lparr>columns_filter = ''accepted_at'', plus_time = 0\<rparr>),
      (1235, \<lparr>columns_filter = ''accepted_at'', plus_time = 3\<rparr>),
      (1352, \<lparr>columns_filter = ''accepted_at'', plus_time = 3\<rparr>)]"

definition FILE_PREFIXES :: "(string \<times> string) list" where
  "FILE_PREFIXES =
     [(''P2PW'', ''Report_Transactions''),
      (''WW'', ''Report_Transactions_UZS''),
      (''LR'', ''Report_Transactions_LR''),
      (''P2P'', ''Report_Transactions_NEW'')]"

definition selected_columns :: "string list" where
  "selected_columns =
     [''external_id'', ''client_order_id'', ''client_name'', ''currency_name'',
      ''created_at'', ''accepted_at'', ''amount'', ''overall_commission'',
      ''status_name'', ''transaction_type'', ''comment'', ''accepted_amount'']"

subsection \<open>Environment, log and state\<close>

text \<open>
  Everything the program takes from outside is a field of \<open>env\<close>: the two Float64
  operations of the pipeline (\<open>x == 0\<close>, and
  \<open>((mid + service) * (accepted / 100)).round(3)\<close>), the clock (one reading of
  \<open>datetime.now()\<close> in the iteration of each client), the result of the query
  (\<open>pd.read_sql\<close>: a frame, or an exception), \<open>pd.to_datetime\<close> on a text (\<open>None\<close> where it
  does not parse), \<open>strftime('%d.%m.%Y')\<close>, \<open>str()\<close> of a cell that is not a text, what
  \<open>astype(int)\<close> makes of \<open>NaT\<close> (an exception or a number, by the pandas version), whether
  a file can be written, whether the output directory can be created, whether the
  database connection can be opened, the order in which \<open>sort_values\<close> puts the rows of a
  column (see \<open>sort_values\<close> above), and whether the interpreter evaluates the annotations
  of a method when it executes its \<open>def\<close> (Python before 3.14 does).
\<close>

record 'f env =
  float_is_zero :: "'f \<Rightarrow> bool"
  float_commission :: "'f \<Rightarrow> 'f \<Rightarrow> 'f \<Rightarrow> 'f"
  clock_now :: "int \<Rightarrow> datetime"
  read_sql :: "int \<Rightarrow> datetime \<Rightarrow> datetime \<Rightarrow> error + 'f dataframe"
  to_datetime :: "string \<Rightarrow> int option"
  strftime_dmy :: "datetime \<Rightarrow> string"
  str_of_cell :: "'f cell \<Rightarrow> string"
  nat_as_int :: "error + 'f cell"
  writable :: "string \<Rightarrow> bool"
  creatable :: bool
  connectable :: bool
  sort_order :: "'f cell list \<Rightarrow> error + nat list"
  annotations_evaluated :: bool

text \<open>One constructor for each call of the logger, in the order of the source.\<close>

datatype 'f event =
    InitInfo
  | WindowInfo datetime datetime
  | CreateInfo int
  | LoadedInfo int
  | LoadError int error
  | ProcessStartInfo
  | ProcessDoneInfo
  | ProcessError error
  | FilterStartInfo
  | FilterDoneInfo "'f cell"
  | FilterError error
  | EmptyWarning "'f cell"
  | MissingColumnsError "string list"
  | NoClientIdError
  | CsvSavedInfo string
  | CsvError error
  | ExcelSavedInfo string
  | ExcelError error
  | ClientStartInfo int
  | NoDataWarning int
  | ClientDoneInfo int

text \<open>
  The path \<open>save...\<close> of the output directory: absent, something that is not a directory,
  or a directory with its files by name.
\<close>

datatype 'f out_file = CsvFile "'f dataframe" | ExcelFile string "'f dataframe" | OtherFile

datatype 'f path_state = Missing | NotADirectory | Directory "string \<Rightarrow> 'f out_file option"

text \<open>The attributes of the \<open>EveryDayAuto\<close> object, the output directory and the log.
  \<open>start_date\<close> and \<open>end_date\<close> do not exist until \<open>activate\<close> assigns them.\<close>

record 'f state =
  DF :: "'f dataframe"
  col_filter :: string
  client_name :: "'f cell"
  delta_time :: int
  start_date :: "datetime option"
  end_date :: "datetime option"
  save_dir :: "'f path_state"
  log :: "'f event list"

definition emit :: "'f event \<Rightarrow> 'f state \<Rightarrow> 'f state" where
  "emit ev st = st\<lparr>log := log st @ [ev]\<rparr>"

subsection \<open>File system operations\<close>


definition mkdir_exist_ok :: "'f env \<Rightarrow> 'f path_state \<Rightarrow> error + 'f path_state" where
  \<comment> \<open>\<open>Path(path).mkdir(exist_ok=True)\<close>: nothing to do when the directory
      exists, FileExistsError when the path is something else, and the error of the
      operating system (a PermissionError, say) when the directory cannot be created\<close>
  "mkdir_exist_ok env p =
     (case p of
        Missing \<Rightarrow> if creatable env then Inr (Directory (\<lambda>n. None)) else Inl OSError
      | NotADirectory \<Rightarrow> Inl FileExistsError
      | Directory fs \<Rightarrow> Inr (Directory fs))"

definition write_file :: "'f env \<Rightarrow> string \<Rightarrow> 'f out_file \<Rightarrow> 'f path_state \<Rightarrow> error + 'f path_state" where
  \<comment> \<open>\<open>to_csv\<close> and \<open>to_excel\<close> into the directory: an existing file is overwritten\<close>
  "write_file env name f p =
     (case p of
        Directory fs \<Rightarrow> if writable env name then Inr (Directory (fs(name := Some f))) else Inl OSError
      | _ \<Rightarrow> Inl OSError)"


subsection \<open>create\_df (lines 141 to 230)\<close>

text \<open>The query is the environment's; an exception of \<open>pd.read_sql\<close> is logged and turned
  into the empty frame.\<close>

definition create_df ::
  "'f env \<Rightarrow> int \<Rightarrow> datetime \<Rightarrow> datetime \<Rightarrow> 'f state \<Rightarrow> 'f state \<times> 'f dataframe" where
  "create_df env idClient start_of_yesterday stop_of_yesterday st =
     (let st1 = emit (CreateInfo idClient) st in
      case read_sql env idClient start_of_yesterday stop_of_yesterday of
        Inr df_combined \<Rightarrow> (emit (LoadedInfo idClient) st1, df_combined)
      | Inl e \<Rightarrow> (emit (LoadError idClient e) st1, empty_frame))"

subsection \<open>set\_new\_col (lines 234 to 285)\<close>

text \<open>
  \<open>df['amount'] == 0\<close> on one cell, \<open>Series.map(STATUS_DICT)\<close> on one cell (\<open>status_id\<close> is
  an integer column; a cell of another kind is not a key of the table), and the test that
  a cell is a Float64 (the query casts the four numeric columns to Float64; arithmetic on
  a cell of another kind is modelled as raising TypeError).
\<close>

fun cell_is_zero :: "'f env \<Rightarrow> 'f cell \<Rightarrow> bool" where
  "cell_is_zero env (FltC x) = float_is_zero env x"
| "cell_is_zero env (IntC n) = (n = 0)"
| "cell_is_zero env _ = False"

fun translate :: "'f cell \<Rightarrow> 'f cell" where
  "translate (IntC n) = (case STATUS_DICT n of Some l \<Rightarrow> StrC l | None \<Rightarrow> Null)"
| "translate _ = Null"

fun is_float :: "'f cell \<Rightarrow> bool" where
  "is_float (FltC x) = True"
| "is_float _ = False"

fun commission_cell :: "'f env \<Rightarrow> 'f cell \<Rightarrow> 'f cell \<Rightarrow> 'f cell \<Rightarrow> 'f cell" where
  "commission_cell env (FltC m) (FltC s) (FltC a) = FltC (float_commission env m s a)"
| "commission_cell env _ _ _ = Null"

text \<open>The body of the \<open>try\<close> block, statement by statement. Assigning through \<open>df.loc\<close> to a
  column \<open>amount\<close> that does not exist creates it, missing where the mask is false.\<close>

definition set_new_col_try :: "'f env \<Rightarrow> string \<Rightarrow> 'f dataframe \<Rightarrow> error + 'f dataframe" where
  "set_new_col_try env col df =
     (if ''accepted_amount'' \<notin> set (columns df) then Inl (KeyError ''accepted_amount'')
      else if ''transaction_type'' \<notin> set (columns df) then Inl (KeyError ''transaction_type'')
      else
        let df1 = assign df ''amount''
                    (\<lambda>r. if r ''transaction_type'' = StrC ''withdraw'' then r ''accepted_amount''
                         else cell_at df r ''amount'');
            df2 = assign df1 ''amount''
                    (\<lambda>r. if cell_is_zero env (r ''amount'') then r ''accepted_amount''
                         else r ''amount'')
        in
        if ''status_name'' \<notin> set (columns df2) then Inl (KeyError ''status_name'')
        else
          let df3 = assign df2 ''status_name'' (\<lambda>r. translate (r ''status_name'')) in
          if ''mid_commission'' \<notin> set (columns df3) then Inl (KeyError ''mid_commission'')
          else if ''service_commission'' \<notin> set (columns df3)
            then Inl (KeyError ''service_commission'')
          else if \<not> list_all (\<lambda>r. is_float (r ''mid_commission'') \<and>
                                  is_float (r ''service_commission'') \<and>
                                  is_float (r ''accepted_amount'')) (rows df3)
            then Inl TypeError
          else
            let df4 = assign df3 ''overall_commission''
                        (\<lambda>r. commission_cell env (r ''mid_commission'')
                               (r ''service_commission'') (r ''accepted_amount''))
            in
            (case drop_duplicates ''external_id'' df4 of
               Inl e \<Rightarrow> Inl e
             | Inr df5 \<Rightarrow> sort_values (sort_order env) col df5))"

text \<open>What the four assignments of the \<open>try\<close> block (lines 263 to 272) make of one row
  of the frame \<open>df\<close>; used to state properties of \<open>set_new_col\<close>.\<close>

definition normalize_row :: "'f env \<Rightarrow> 'f dataframe \<Rightarrow> 'f row \<Rightarrow> 'f row" where
  "normalize_row env df r =
     (let r1 = r(''amount'' := (if r ''transaction_type'' = StrC ''withdraw''
                                then r ''accepted_amount'' else cell_at df r ''amount''));
          r2 = r1(''amount'' := (if cell_is_zero env (r1 ''amount'') then r1 ''accepted_amount''
                                 else r1 ''amount''));
          r3 = r2(''status_name'' := translate (r2 ''status_name''))
      in r3(''overall_commission'' :=
              commission_cell env (r3 ''mid_commission'') (r3 ''service_commission'')
                (r3 ''accepted_amount'')))"

text \<open>The columns of the frame after the assignments, and the value they give to
  \<open>amount\<close>.\<close>

definition normalized_columns :: "string list \<Rightarrow> string list" where
  "normalized_columns cs =
     cs @ (if ''amount'' \<in> set cs then [] else [''amount''])
        @ (if ''overall_commission'' \<in> set cs then [] else [''overall_commission''])"

definition backfilled_amount :: "'f env \<Rightarrow> 'f dataframe \<Rightarrow> 'f row \<Rightarrow> 'f cell" where
  "backfilled_amount env df r =
     (let a = (if r ''transaction_type'' = StrC ''withdraw'' then r ''accepted_amount''
               else cell_at df r ''amount'')
      in if cell_is_zero env a then r ''accepted_amount'' else a)"

text \<open>The method: the frame is sorted by \<open>self.col_filter\<close>; an exception is logged and
  raised again.\<close>

definition set_new_col ::
  "'f env \<Rightarrow> 'f dataframe \<Rightarrow> 'f state \<Rightarrow> 'f state \<times> (error + 'f dataframe)" where
  "set_new_col env df st =
     (let st1 = emit ProcessStartInfo st in
      case set_new_col_try env (col_filter st1) df of
        Inr df' \<Rightarrow> (emit ProcessDoneInfo st1, Inr df')
      | Inl e \<Rightarrow> (emit (ProcessError e) st1, Inl e))"

subsection \<open>remove\_microseconds (lines 289 to 314)\<close>

text \<open>\<open>re.sub(r'\.\d+', '', value)\<close>: every dot that is followed by a digit is removed
  together with the digits after it (digits are the ASCII ones, as in the texts that the
  query returns). \<open>re.sub\<close> raises TypeError on a value that is not a text.\<close>

definition is_digit :: "char \<Rightarrow> bool" where
  "is_digit c \<longleftrightarrow> c \<in> set ''0123456789''"

fun strip_fraction :: "bool \<Rightarrow> string \<Rightarrow> string" where
  "strip_fraction in_match [] = []"
| "strip_fraction in_match (c # cs) =
     (if in_match \<and> is_digit c then strip_fraction True cs
      else if c = CHR ''.'' \<and> (case cs of [] \<Rightarrow> False | d # ds \<Rightarrow> is_digit d)
        then strip_fraction True cs
      else c # strip_fraction False cs)"

fun remove_microseconds :: "'f cell \<Rightarrow> error + 'f cell" where
  "remove_microseconds NoneC = Inr NoneC"
| "remove_microseconds Null = Inr NoneC"
| "remove_microseconds (StrC v) = Inr (StrC (strip_fraction False v))"
| "remove_microseconds _ = Inl TypeError"

subsection \<open>filter\_data\_time (lines 317 to 378)\<close>

text \<open>Timestamps are int64 nanoseconds (\<open>-2^63\<close> is \<open>NaT\<close>); pandas raises when an addition
  leaves the range.\<close>

definition in_timestamp_range :: "int \<Rightarrow> bool" where
  "in_timestamp_range t \<longleftrightarrow> - 9223372036854775807 \<le> t \<and> t \<le> 9223372036854775807"

fun add_ns :: "int \<Rightarrow> 'f cell \<Rightarrow> error + 'f cell" where
  "add_ns d (TimeC t) = (if in_timestamp_range (t + d) then Inr (TimeC (t + d)) else Inl OverflowError)"
| "add_ns d Null = Inr Null"
| "add_ns d _ = Inl TypeError"

text \<open>\<open>pd.to_datetime(value, errors='coerce')\<close> on one cell.\<close>

fun coerce_datetime :: "'f env \<Rightarrow> 'f cell \<Rightarrow> 'f cell" where
  "coerce_datetime env (StrC s) = (case to_datetime env s of Some t \<Rightarrow> TimeC t | None \<Rightarrow> Null)"
| "coerce_datetime env (TimeC t) = TimeC t"
| "coerce_datetime env (IntC n) = TimeC n"
| "coerce_datetime env _ = Null"

definition hours_ns :: "int \<Rightarrow> int" where
  \<comment> \<open>\<open>pd.to_timedelta(plus, unit='hours')\<close>\<close>
  "hours_ns h = h * 3600000000000"

definition to_ns :: "datetime \<Rightarrow> int" where
  \<comment> \<open>a datetime as a pandas timestamp; 1970-01-01 has ordinal 719163\<close>
  "to_ns d = (to_microseconds d - 719163 * 86400000000) * 1000"

text \<open>Lines 355 to 358: both time columns are stripped, parsed and shifted by the
  client's \<open>plus_time\<close>.\<close>

definition adjust_times :: "'f env \<Rightarrow> int \<Rightarrow> 'f dataframe \<Rightarrow> error + 'f dataframe" where
  "adjust_times env plus_hours df =
     (case apply_column ''created_at'' remove_microseconds df of
        Inl e \<Rightarrow> Inl e
      | Inr df1 \<Rightarrow>
     (case apply_column ''accepted_at'' remove_microseconds df1 of
        Inl e \<Rightarrow> Inl e
      | Inr df2 \<Rightarrow>
     (case apply_column ''created_at'' (\<lambda>c. add_ns (hours_ns plus_hours) (coerce_datetime env c)) df2 of
        Inl e \<Rightarrow> Inl e
      | Inr df3 \<Rightarrow>
          apply_column ''accepted_at'' (\<lambda>c. add_ns (hours_ns plus_hours) (coerce_datetime env c)) df3)))"

text \<open>\<open>(df[c] >= start) & (df[c] < end)\<close> on one cell of a datetime column (\<open>NaT\<close> compares
  false); a column of another kind cannot be compared with a datetime.\<close>

fun is_time_or_null :: "'f cell \<Rightarrow> bool" where
  "is_time_or_null (TimeC t) = True"
| "is_time_or_null Null = True"
| "is_time_or_null _ = False"

fun in_window :: "datetime \<Rightarrow> datetime \<Rightarrow> 'f cell \<Rightarrow> bool" where
  "in_window s e (TimeC t) \<longleftrightarrow> to_ns s \<le> t \<and> t < to_ns e"
| "in_window s e _ \<longleftrightarrow> False"

text \<open>Lines 367 and 368.\<close>

definition resolve_client_name :: "'f dataframe \<Rightarrow> error + 'f cell" where
  "resolve_client_name df =
     (if ''client_name'' \<notin> set (columns df) then Inl (KeyError ''client_name'')
      else
        let unique_clients = unique (map (\<lambda>r. r ''client_name'') (rows df)) in
        Inr (case unique_clients of [c] \<Rightarrow> c | _ \<Rightarrow> StrC ''DEFAULT''))"

text \<open>The body of the \<open>try\<close> block. The attributes assigned before an exception keep
  their new values.\<close>

definition filter_data_time_try ::
  "'f env \<Rightarrow> 'f dataframe \<Rightarrow> string \<Rightarrow> 'f state \<Rightarrow> 'f state \<times> error option" where
  "filter_data_time_try env df filter_column st =
     (if ''client_id'' \<notin> set (columns df) then (st, Some AttributeError)
      else (case rows df of
        [] \<Rightarrow> (st, Some IndexError)
      | r0 # rs \<Rightarrow>
     (case (case r0 ''client_id'' of IntC un_c \<Rightarrow> map_of CLIENTS un_c | _ \<Rightarrow> None) of
        None \<Rightarrow> (st, Some AttributeError)
      | Some config \<Rightarrow>
     (case adjust_times env (plus_time config) df of
        Inl e \<Rightarrow> (st, Some e)
      | Inr df' \<Rightarrow>
          if filter_column \<notin> set (columns df') then (st, Some (KeyError filter_column))
          else (case start_date st of
            None \<Rightarrow> (st, Some AttributeError)
          | Some s \<Rightarrow>
              if \<not> list_all (\<lambda>r. is_time_or_null (r filter_column)) (rows df')
              then (st, Some TypeError)
              else (case end_date st of
                None \<Rightarrow> (st, Some AttributeError)
              | Some e \<Rightarrow>
                  let st1 = st\<lparr>DF := df'\<lparr>rows := filter (\<lambda>r. in_window s e (r filter_column))
                                                     (rows df')\<rparr>\<rparr>
                  in (case resolve_client_name (DF st1) of
                    Inl err \<Rightarrow> (st1, Some err)
                  | Inr name \<Rightarrow>
                      let st2 = st1\<lparr>client_name := name\<rparr> in
                      if ''status_name'' \<notin> set (columns (DF st2))
                      then (st2, Some (KeyError ''status_name''))
                      else
                        let st3 = st2\<lparr>DF := (DF st2)\<lparr>rows :=
                                    filter (\<lambda>r. r ''status_name'' = StrC ''Succeed'')
                                      (rows (DF st2))\<rparr>\<rparr>
                        in (emit (FilterDoneInfo (client_name st3)) st3, None))))))))"

definition filter_data_time ::
  "'f env \<Rightarrow> 'f dataframe \<Rightarrow> string \<Rightarrow> 'f state \<Rightarrow> 'f state \<times> (error + 'f dataframe)" where
  "filter_data_time env df filter_column st =
     (case filter_data_time_try env df filter_column (emit FilterStartInfo st) of
        (st', Some e) \<Rightarrow> (emit (FilterError e) st', Inl e)
      | (st', None) \<Rightarrow> (st', Inr (DF st')))"

subsection \<open>result\_save (lines 382 to 467)\<close>

text \<open>\<open>pd.to_datetime(value) + pd.Timedelta(seconds=1)\<close> on one cell (a text that does not
  parse raises here), and \<open>astype(int) // 10**9\<close> on one timestamp.\<close>

fun nudge :: "'f env \<Rightarrow> 'f cell \<Rightarrow> error + 'f cell" where
  "nudge env (StrC s) =
     (case to_datetime env s of Some t \<Rightarrow> add_ns 1000000000 (TimeC t) | None \<Rightarrow> Inl ValueError)"
| "nudge env (FltC x) = Inl TypeError"
| "nudge env c = add_ns 1000000000 (coerce_datetime env c)"

fun epoch_seconds :: "'f env \<Rightarrow> 'f cell \<Rightarrow> error + 'f cell" where
  "epoch_seconds env (TimeC t) = Inr (IntC (t div 1000000000))"
| "epoch_seconds env Null = nat_as_int env"
| "epoch_seconds env _ = Inl TypeError"

definition is_prefixed :: "'f cell \<Rightarrow> bool" where
  \<comment> \<open>\<open>self.client_name in self.FILE_PREFIXES\<close>\<close>
  "is_prefixed name \<longleftrightarrow> (case name of StrC s \<Rightarrow> map_of FILE_PREFIXES s \<noteq> None | _ \<Rightarrow> False)"

definition py_str :: "'f env \<Rightarrow> 'f cell \<Rightarrow> string" where
  "py_str env c = (case c of StrC s \<Rightarrow> s | _ \<Rightarrow> str_of_cell env c)"

text \<open>\<open>df[cols]\<close>: the frame with these columns only.\<close>

definition project :: "string list \<Rightarrow> 'f dataframe \<Rightarrow> 'f dataframe" where
  "project cols df =
     \<lparr>columns = cols, rows = map (\<lambda>r c. if c \<in> set cols then r c else Null) (rows df)\<rparr>"

text \<open>One round of the loop over \<open>['created_at', 'accepted_at']\<close> (lines 438 to 442).\<close>

definition shift_time_column :: "'f env \<Rightarrow> string \<Rightarrow> 'f state \<Rightarrow> 'f state \<times> error option" where
  "shift_time_column env col st =
     (case apply_column col (nudge env) (DF st) of
        Inl e \<Rightarrow> (st, Some e)
      | Inr df1 \<Rightarrow>
          let st1 = st\<lparr>DF := df1\<rparr> in
          if col \<in> set (columns (DF st1)) \<and> is_prefixed (client_name st1)
          then (case apply_column col (epoch_seconds env) (DF st1) of
                  Inl e \<Rightarrow> (st1, Some e)
                | Inr df2 \<Rightarrow> (st1\<lparr>DF := df2\<rparr>, None))
          else (st1, None))"

definition sheet_name :: string where
  \<comment> \<open>"Dannye" (data)\<close>
  "sheet_name =
     [CHR 0xD0, CHR 0x94, CHR 0xD0, CHR 0xB0, CHR 0xD0, CHR 0xBD, CHR 0xD0, CHR 0xBD, CHR 0xD1,
      CHR 0x8B, CHR 0xD0, CHR 0xB5]"

text \<open>Lines 444 to 467: the name of the file and the write; a failed write is logged
  and raised again.\<close>

definition write_report :: "'f env \<Rightarrow> 'f state \<Rightarrow> 'f state \<times> error option" where
  "write_report env st =
     (case start_date st of
        None \<Rightarrow> (st, Some AttributeError)
      | Some s \<Rightarrow>
     (case end_date st of
        None \<Rightarrow> (st, Some AttributeError)
      | Some e \<Rightarrow>
          let formatted_date = strftime_dmy env s @ ''-'' @ strftime_dmy env e in
          (case (case client_name st of StrC n \<Rightarrow> map_of FILE_PREFIXES n | _ \<Rightarrow> None) of
             Some file_prefix \<Rightarrow>
               let file_name = file_prefix @ '' '' @ formatted_date @ ''.csv'' in
               (case write_file env file_name (CsvFile (project selected_columns (DF st)))
                       (save_dir st) of
                  Inr dir \<Rightarrow> (emit (CsvSavedInfo file_name) (st\<lparr>save_dir := dir\<rparr>), None)
                | Inl err \<Rightarrow> (emit (CsvError err) st, Some err))
           | None \<Rightarrow>
               let file_name = py_str env (client_name st) @ ''_'' @ formatted_date
                                 @ ''_2024.xlsx'' in
               (case write_file env file_name
                       (ExcelFile sheet_name (project selected_columns (DF st))) (save_dir st) of
                  Inr dir \<Rightarrow> (emit (ExcelSavedInfo file_name) (st\<lparr>save_dir := dir\<rparr>), None)
                | Inl err \<Rightarrow> (emit (ExcelError err) st, Some err)))))"

definition result_save :: "'f env \<Rightarrow> 'f state \<Rightarrow> 'f state \<times> error option" where
  "result_save env st =
     (if is_empty (DF st) then (emit (EmptyWarning (client_name st)) st, None)
      else (case mkdir_exist_ok env (save_dir st) of
        Inl e \<Rightarrow> (st, Some e)
      | Inr folder \<Rightarrow>
          let st1 = st\<lparr>save_dir := folder\<rparr>;
              missing_columns = filter (\<lambda>c. c \<notin> set (columns (DF st1))) selected_columns
          in
          if missing_columns \<noteq> [] then (emit (MissingColumnsError missing_columns) st1, None)
          else
            let client_id =
                  (if ''client_id'' \<in> set (columns (DF st1))
                   then (case rows (DF st1) of [] \<Rightarrow> NoneC | r0 # rs \<Rightarrow> r0 ''client_id'')
                   else NoneC)
            in
            if client_id = NoneC then (emit NoClientIdError st1, None)
            else (case shift_time_column env ''created_at'' st1 of
              (st2, Some e) \<Rightarrow> (st2, Some e)
            | (st2, None) \<Rightarrow>
            (case shift_time_column env ''accepted_at'' st2 of
              (st3, Some e) \<Rightarrow> (st3, Some e)
            | (st3, None) \<Rightarrow> write_report env st3))))"

subsection \<open>activate (lines 471 to 522)\<close>

text \<open>One iteration of the loop over \<open>CLIENTS.items()\<close>. \<open>get_current_day\<close> is called
  without an argument, so with its default \<open>delta_time = 0\<close>; the line it logs is recorded
  here. There is no \<open>try\<close> in \<open>activate\<close>: an exception of a step leaves the loop.\<close>

definition activate_client ::
  "'f env \<Rightarrow> int \<times> client_config \<Rightarrow> 'f state \<Rightarrow> 'f state \<times> error option" where
  "activate_client env item st =
     (let client_id = fst item; config = snd item;
          st1 = emit (ClientStartInfo client_id) st;
          st2 = st1\<lparr>col_filter := columns_filter config\<rparr>
      in
      case get_current_day (clock_now env client_id) 0 of
        Inl e \<Rightarrow> (st2, Some e)
      | Inr window \<Rightarrow>
          let st3 = (emit (WindowInfo (fst window) (snd window)) st2)
                      \<lparr>start_date := Some (fst window), end_date := Some (snd window)\<rparr>;
              created = create_df env client_id (fst window) (snd window) st3;
              st4 = fst created; df = snd created
          in
          if is_empty df then (emit (NoDataWarning client_id) st4, None)
          else (case set_new_col env df st4 of
            (st5, Inl e) \<Rightarrow> (st5, Some e)
          | (st5, Inr df1) \<Rightarrow>
          (case filter_data_time env df1 (col_filter st5) st5 of
            (st6, Inl e) \<Rightarrow> (st6, Some e)
          | (st6, Inr df2) \<Rightarrow>
          (case result_save env st6 of
            (st7, Some e) \<Rightarrow> (st7, Some e)
          | (st7, None) \<Rightarrow> (emit (ClientDoneInfo client_id) st7, None)))))"

fun activate_loop ::
  "'f env \<Rightarrow> (int \<times> client_config) list \<Rightarrow> 'f state \<Rightarrow> 'f state \<times> error option" where
  "activate_loop env [] st = (st, None)"
| "activate_loop env (item # items) st =
     (case activate_client env item st of
        (st', Some e) \<Rightarrow> (st', Some e)
      | (st', None) \<Rightarrow> activate_loop env items st')"

definition activate :: "'f env \<Rightarrow> 'f state \<Rightarrow> 'f state \<times> error option" where
  "activate env st = activate_loop env CLIENTS st"


subsection \<open>The constructor and the module\<close>




subsection \<open>A concrete run\<close>

text \<open>
  Data for evaluating the model: Float64 read as exact rationals with round-half-even
  to three decimals, a clock at Tuesday 2024-11-19 09:30:15.25, a database that
  answers for client 1282 with two records of the same external id (both accepted on
  2024-11-18, status 4) and fails for every other client, a sort of text columns that
  happens to keep ties in their order, and an interpreter that does not evaluate
  annotations.
\<close>

fun text_of :: "'f cell \<Rightarrow> string" where
  "text_of (StrC s) = s"
| "text_of _ = []"

fun is_text_or_na :: "'f cell \<Rightarrow> bool" where
  "is_text_or_na (StrC s) = True"
| "is_text_or_na Null = True"
| "is_text_or_na NoneC = True"
| "is_text_or_na _ = False"

definition text_order :: "'f cell list \<Rightarrow> error + nat list" where
  "text_order cells =
     (if \<not> list_all is_text_or_na cells then Inl TypeError
      else Inr (sort_key (\<lambda>i. text_of (cells ! i))
                  (filter (\<lambda>i. \<not> is_na (cells ! i)) [0..<length cells])
                @ filter (\<lambda>i. is_na (cells ! i)) [0..<length cells]))"

definition round3 :: "rat \<Rightarrow> rat" where
  "round3 x =
     (let y = x * 1000; f = \<lfloor>y\<rfloor>; d = y - of_int f in
      of_int (if d < 1 / 2 then f else if 1 / 2 < d then f + 1
              else if even f then f else f + 1) / 1000)"

definition row_of :: "(string \<times> 'f cell) list \<Rightarrow> 'f row" where
  "row_of al = (\<lambda>c. case map_of al c of Some v \<Rightarrow> v | None \<Rightarrow> Null)"

definition example_columns :: "string list" where
  "example_columns =
     [''external_id'', ''client_order_id'', ''client_id'', ''currency_id'', ''created_at'',
      ''accepted_at'', ''amount'', ''accepted_amount'', ''service_commission'',
      ''mid_commission'', ''status_name'', ''comment'', ''type'', ''provodka'', ''mid_id'',
      ''client_name'', ''currency_name'', ''transaction_type'']"

definition example_row :: "string \<Rightarrow> string \<Rightarrow> int \<Rightarrow> rat row" where
  "example_row ext cmt status = row_of
     [(''external_id'', StrC ext), (''client_order_id'', StrC ''order-1''),
      (''client_id'', IntC 1282), (''currency_id'', IntC 1),
      (''created_at'', StrC ''2024-11-18 10:00:00.123456''),
      (''accepted_at'', StrC ''2024-11-18 10:05:00.654321''),
      (''amount'', FltC 0), (''accepted_amount'', FltC 100),
      (''service_commission'', FltC 2), (''mid_commission'', FltC (3 / 2)),
      (''status_name'', IntC status), (''comment'', StrC cmt), (''type'', IntC 0),
      (''provodka'', StrC []), (''mid_id'', IntC 7), (''client_name'', StrC ''ACME''),
      (''currency_name'', StrC ''RUB''), (''transaction_type'', StrC ''invoice'')]"

definition example_frame :: "rat dataframe" where
  "example_frame =
     \<lparr>columns = example_columns,
      rows = [example_row ''tx-1'' ''first'' 4, example_row ''tx-1'' ''second'' 4]\<rparr>"

definition example_now :: datetime where
  "example_now = \<lparr>ordinal = 739209, hour = 9, minute = 30, second = 15, microsecond = 250000\<rparr>"

definition example_env :: "rat env" where
  "example_env =
     \<lparr>float_is_zero = (\<lambda>x. x = 0),
      float_commission = (\<lambda>m s a. round3 ((m + s) * (a / 100))),
      clock_now = (\<lambda>c. example_now),
      read_sql = (\<lambda>c s e. if c = 1282 then Inr example_frame else Inl DatabaseError),
      to_datetime = map_of [(''2024-11-18 10:00:00'', 1731924000000000000),
                            (''2024-11-18 10:05:00'', 1731924300000000000),
                            (''2024-11-17 12:00:00'', 1731844800000000000)],
      strftime_dmy = (\<lambda>d. if ordinal d = 739208 then ''18.11.2024''
                            else if ordinal d = 739209 then ''19.11.2024'' else ''??.??.????''),
      str_of_cell = (\<lambda>c. ''None''),
      nat_as_int = Inl ValueError,
      writable = (\<lambda>n. True),
      creatable = True,
      connectable = True,
      sort_order = text_order,
      annotations_evaluated = False\<rparr>"

definition example_state :: "rat state" where
  "example_state =
     \<lparr>DF = empty_frame, col_filter = [], client_name = StrC [], delta_time = 0,
      start_date = None, end_date = None, save_dir = Missing, log = [InitInfo]\<rparr>"


text \<open>A normalized frame with three records (one accepted on 2024-11-17, one failed) and
  a state holding the window from 2024-11-18 00:00 to 2024-11-19 00:00.\<close>

definition windowed_row :: "string \<Rightarrow> string \<Rightarrow> rat cell \<Rightarrow> rat row" where
  "windowed_row ext accepted status =
     (example_row ext ''first'' 4)(''accepted_at'' := StrC accepted, ''status_name'' := status)"

definition normalized_frame :: "rat dataframe" where
  "normalized_frame =
     \<lparr>columns = example_columns @ [''overall_commission''],
      rows = [windowed_row ''tx-0'' ''2024-11-17 12:00:00.5'' (StrC ''Succeed''),
              windowed_row ''tx-1'' ''2024-11-18 10:05:00.654321'' (StrC ''Succeed''),
              windowed_row ''tx-2'' ''2024-11-18 10:05:00'' (StrC label_failed)]\<rparr>"

definition window_state :: "rat state" where
  "window_state =
     example_state\<lparr>col_filter := ''accepted_at'',
       start_date := Some \<lparr>ordinal = 739208, hour = 0, minute = 0, second = 0, microsecond = 0\<rparr>,
       end_date := Some \<lparr>ordinal = 739209, hour = 0, minute = 0, second = 0, microsecond = 0\<rparr>\<rparr>"



text \<open>The seventh configured client, whose offset is 3 hours.\<close>

definition late_client :: "int \<times> client_config" where
  "late_client = (1235, \<lparr>columns_filter = ''accepted_at'', plus_time = 3\<rparr>)"

text \<open>The example frame normalized once and twice (the state only provides
  \<open>col_filter = accepted_at\<close>).\<close>

definition normalized_once :: "rat dataframe" where
  "normalized_once =
     (case snd (set_new_col example_env example_frame window_state) of
        Inr d \<Rightarrow> d | Inl e \<Rightarrow> empty_frame)"

definition normalized_twice :: "rat dataframe" where
  "normalized_twice =
     (case snd (set_new_col example_env normalized_once window_state) of
        Inr d \<Rightarrow> d | Inl e \<Rightarrow> empty_frame)"



section \<open>Properties\<close>

subsection \<open>Status translation\<close>

text \<open>
  C8, as stated: the daily pipeline's table maps code 12 to the "zeroed out" label and
  the table of the SLA report maps it to the "reversed" label. The two tables have it the
  other way round, so the statement fails at code 12.
\<close>

theorem status_code_12_counterexample:
  "\<not> (STATUS_DICT 12 = Some label_zeroed \<and> SLA_STATUS_DICT 12 = Some ''Reversal'')"
  by (simp add: STATUS_DICT_def label_zeroed_def)

text \<open>
  C8, amended: the daily pipeline's table maps code 12 to "Reversal" and the table of
  the SLA report maps it to "Obnulenie" (zeroing out); apart from code 12 the two tables
  are the same, with the labels listed; both know exactly the codes 2, 3, 4, 8, 10, 11, 12
  and 13, and the translation of any other code is the missing value, not an exception.
\<close>

theorem status_tables:
  "STATUS_DICT 12 = Some ''Reversal'' \<and> SLA_STATUS_DICT 12 = Some label_zeroed \<and>
   SLA_STATUS_DICT = STATUS_DICT(12 \<mapsto> label_zeroed) \<and>
   dom STATUS_DICT = {2, 3, 4, 8, 10, 11, 12, 13} \<and>
   dom SLA_STATUS_DICT = {2, 3, 4, 8, 10, 11, 12, 13} \<and>
   STATUS_DICT 2 = Some label_in_processing \<and> STATUS_DICT 3 = Some label_failed \<and>
   STATUS_DICT 4 = Some ''Succeed'' \<and> STATUS_DICT 8 = Some label_our_fault \<and>
   STATUS_DICT 10 = Some label_cancelled \<and> STATUS_DICT 11 = Some label_expired \<and>
   STATUS_DICT 13 = Some label_cancelled_before_details \<and>
   (translate (IntC c) :: 'f cell) = (case STATUS_DICT c of Some l \<Rightarrow> StrC l | None \<Rightarrow> Null)"
proof -
  have eq: "SLA_STATUS_DICT = STATUS_DICT(12 \<mapsto> label_zeroed)"
    by (rule ext) (simp add: STATUS_DICT_def SLA_STATUS_DICT_def)
  have d: "dom STATUS_DICT = {2, 3, 4, 8, 10, 11, 12, 13}"
    by (auto simp: STATUS_DICT_def dom_def split: if_splits)
  have d': "dom SLA_STATUS_DICT = {2, 3, 4, 8, 10, 11, 12, 13}"
    unfolding eq using d by auto
  have s12: "SLA_STATUS_DICT 12 = Some label_zeroed"
    by (simp add: SLA_STATUS_DICT_def)
  have rest: "STATUS_DICT 12 = Some ''Reversal'' \<and>
     STATUS_DICT 2 = Some label_in_processing \<and> STATUS_DICT 3 = Some label_failed \<and>
     STATUS_DICT 4 = Some ''Succeed'' \<and> STATUS_DICT 8 = Some label_our_fault \<and>
     STATUS_DICT 10 = Some label_cancelled \<and> STATUS_DICT 11 = Some label_expired \<and>
     STATUS_DICT 13 = Some label_cancelled_before_details"
    by (simp add: STATUS_DICT_def)
  show ?thesis
    using eq d d' s12 rest by simp
qed

subsection \<open>The window\<close>

lemma get_current_day_Inr:
  assumes "get_current_day today h = Inr (s, e)"
  shows "s = today\<lparr>ordinal := ordinal today - (if weekday today = 0 then 3 else 1),
                   hour := h, minute := 0, second := 0, microsecond := 0\<rparr>"
    and "e = today\<lparr>hour := h, minute := 0, second := 0, microsecond := 0\<rparr>"
    and "0 \<le> h" and "h \<le> 23"
  using assms
  by (auto simp: get_current_day_def minus_days_def replace_hour_def
           split: if_splits sum.splits)

lemma get_current_day_total:
  assumes "valid_datetime today" and "3 < ordinal today" and "0 \<le> h" and "h \<le> 23"
  shows "\<exists>s e. get_current_day today h = Inr (s, e)"
  using assms
  by (auto simp: get_current_day_def minus_days_def replace_hour_def valid_datetime_def)

text \<open>
  C4: for every reading of the clock (a valid datetime from 0001-01-04 on, so that three
  days before it is still a date) and every offset hour in 0..23, \<open>get_current_day\<close>
  returns a window with \<open>end - start\<close> exactly 3 days when the clock reads a Monday
  (\<open>weekday() == 0\<close>, the first day of the week) and exactly 1 day otherwise, and
  \<open>start < end\<close>.
\<close>

theorem window_length:
  assumes "valid_datetime today" and "3 < ordinal today" and "0 \<le> h" and "h \<le> 23"
  shows "\<exists>s e. get_current_day today h = Inr (s, e) \<and>
           datetime_diff e s = days (if weekday today = 0 then 3 else 1) \<and>
           datetime_less s e"
proof -
  from get_current_day_total [OF assms] obtain s e
    where w: "get_current_day today h = Inr (s, e)" by blast
  note se = get_current_day_Inr(1,2) [OF w]
  have "datetime_diff e s = days (if weekday today = 0 then 3 else 1)"
    by (simp add: se datetime_diff_def to_microseconds_def days_def)
  moreover have "datetime_less s e"
    by (simp add: se datetime_less_def to_microseconds_def)
  ultimately show ?thesis using w by blast
qed

theorem window_length_witness:
  "valid_datetime example_now \<and> 3 < ordinal example_now \<and>
   (\<exists>s e. get_current_day example_now 3 = Inr (s, e) \<and>
      datetime_diff e s = days 1 \<and> datetime_less s e)"
  using window_length [of example_now 3]
  by (simp add: example_now_def valid_datetime_def weekday_def)

subsection \<open>The report writer\<close>

lemma emit_simps [simp]:
  "DF (emit ev st) = DF st" "col_filter (emit ev st) = col_filter st"
  "client_name (emit ev st) = client_name st" "start_date (emit ev st) = start_date st"
  "end_date (emit ev st) = end_date st" "save_dir (emit ev st) = save_dir st"
  "log (emit ev st) = log st @ [ev]"
  by (simp_all add: emit_def)





subsection \<open>The display name of the client\<close>

lemma keep_first_keys: "k ` set (keep_first k seen xs) = k ` set xs - set seen"
  by (induction xs arbitrary: seen) auto

lemma keep_first_subset: "set (keep_first k seen xs) \<subseteq> set xs"
  by (induction xs arbitrary: seen) auto

lemma keep_first_distinct: "distinct (map k (keep_first k seen xs))"
proof (induction xs arbitrary: seen)
  case Nil
  then show ?case by simp
next
  case (Cons x xs)
  have "k x \<notin> k ` set (keep_first k (k x # seen) xs)"
    by (simp add: keep_first_keys)
  with Cons show ?case by simp
qed

lemma set_unique: "set (unique xs) = set xs"
  using keep_first_keys [of "\<lambda>x. x" "[]" xs] by (simp add: unique_def)

lemma distinct_unique: "distinct (unique xs)"
  using keep_first_distinct [of "\<lambda>x. x" "[]" xs] by (simp add: unique_def)

lemma distinct_singleton:
  assumes "distinct ys" and "set ys = {v}"
  shows "ys = [v]"
proof (cases ys)
  case Nil
  with assms show ?thesis by simp
next
  case (Cons a zs)
  with assms have a: "a = v" and "a \<notin> set zs" and "set zs \<subseteq> {v}" by auto
  then have "zs = []" by (cases zs) auto
  with Cons a show ?thesis by simp
qed

lemma unique_singleton: "unique xs = [v] \<longleftrightarrow> set xs = {v}"
proof
  assume "unique xs = [v]"
  then have "set (unique xs) = {v}" by simp
  then show "set xs = {v}" by (simp add: set_unique)
next
  assume "set xs = {v}"
  then show "unique xs = [v]"
    by (intro distinct_singleton distinct_unique) (simp add: set_unique)
qed

text \<open>
  C9: on a frame with a column \<open>client_name\<close> (the query always selects it), the
  resolution of the display name does not raise; the name is the one value of the column
  when its rows hold exactly one distinct value, and the sentinel "DEFAULT" when they
  hold none or several.
\<close>

theorem resolve_client_name_unique:
  assumes "''client_name'' \<in> set (columns df)"
  shows "\<exists>name. resolve_client_name df = Inr name \<and>
           (\<forall>v. set (map (\<lambda>r. r ''client_name'') (rows df)) = {v} \<longrightarrow> name = v) \<and>
           ((\<nexists>v. set (map (\<lambda>r. r ''client_name'') (rows df)) = {v}) \<longrightarrow>
              name = StrC ''DEFAULT'')"
proof -
  let ?names = "map (\<lambda>r. r ''client_name'') (rows df)"
  have r: "resolve_client_name df =
             Inr (case unique ?names of [c] \<Rightarrow> c | _ \<Rightarrow> StrC ''DEFAULT'')"
    using assms by (simp add: resolve_client_name_def)
  have one: "(case unique ?names of [c] \<Rightarrow> c | _ \<Rightarrow> StrC ''DEFAULT'') = v"
    if "set ?names = {v}" for v
    using that unique_singleton [of ?names v] by simp
  have other: "(case unique ?names of [c] \<Rightarrow> c | _ \<Rightarrow> StrC ''DEFAULT'') = StrC ''DEFAULT''"
    if "\<nexists>v. set ?names = {v}"
  proof -
    have "unique ?names \<noteq> [v]" for v
      using that unique_singleton [of ?names v] by blast
    then show ?thesis
      by (cases "unique ?names" rule: list.exhaust; simp split: list.splits)
  qed
  show ?thesis using r one other by blast
qed

theorem resolve_client_name_unique_witness:
  "''client_name'' \<in> set (columns example_frame) \<and>
   set (map (\<lambda>r. r ''client_name'') (rows example_frame)) = {StrC ''ACME''} \<and>
   resolve_client_name example_frame = Inr (StrC ''ACME'')"
proof -
  have c: "''client_name'' \<in> set (columns example_frame)"
    by (simp add: example_frame_def example_columns_def)
  have s: "set (map (\<lambda>r. r ''client_name'') (rows example_frame)) = {StrC ''ACME''}"
    by (simp add: example_frame_def example_row_def row_of_def)
  from resolve_client_name_unique [OF c] s c show ?thesis by auto
qed

subsection \<open>The time filter\<close>

lemmas example_defs =
  normalized_frame_def windowed_row_def example_frame_def example_row_def row_of_def
  example_columns_def window_state_def example_state_def example_env_def example_now_def
  empty_frame_def label_failed_def

lemmas filter_defs =
  filter_data_time_def filter_data_time_try_def Let_def CLIENTS_def adjust_times_def
  apply_column_def emit_def resolve_client_name_def unique_def to_ns_def to_microseconds_def
  hours_ns_def in_timestamp_range_def is_digit_def

lemma filter_data_time_try_None:
  assumes "filter_data_time_try env df fc st = (st', None)"
  shows "\<exists>r0 rs un_c cfg adj s e name.
           rows df = r0 # rs \<and> r0 ''client_id'' = IntC un_c \<and> map_of CLIENTS un_c = Some cfg \<and>
           adjust_times env (plus_time cfg) df = Inr adj \<and>
           start_date st = Some s \<and> end_date st = Some e \<and>
           resolve_client_name (adj\<lparr>rows := filter (\<lambda>r. in_window s e (r fc)) (rows adj)\<rparr>)
             = Inr name \<and>
           st' = emit (FilterDoneInfo name)
                   (st\<lparr>client_name := name,
                       DF := adj\<lparr>rows := filter (\<lambda>r. r ''status_name'' = StrC ''Succeed'')
                                         (filter (\<lambda>r. in_window s e (r fc)) (rows adj))\<rparr>\<rparr>)"
  using assms
  unfolding filter_data_time_try_def Let_def
  by (auto split: if_splits list.splits option.splits sum.splits cell.splits)

lemma in_window_iff: "in_window s e c \<longleftrightarrow> (\<exists>t. c = TimeC t \<and> to_ns s \<le> t \<and> t < to_ns e)"
  by (cases c) auto

text \<open>
  C5: when \<open>filter_data_time\<close> returns, its rows are exactly the rows of the adjusted
  frame (both time columns stripped of the fraction, parsed and shifted by the client's
  offset) whose window column lies in \<open>[start, end)\<close> and whose status label is "Succeed",
  in their order; so every row of the output has its adjusted window-column value in
  \<open>[start, end)\<close> and the label "Succeed", and no other row is in the output.
\<close>

theorem filter_data_time_window:
  assumes "filter_data_time env df fc st = (st', Inr out)"
  shows "\<exists>r0 rs un_c cfg adj s e.
           rows df = r0 # rs \<and> r0 ''client_id'' = IntC un_c \<and> map_of CLIENTS un_c = Some cfg \<and>
           start_date st = Some s \<and> end_date st = Some e \<and>
           adjust_times env (plus_time cfg) df = Inr adj \<and>
           rows out = filter (\<lambda>r. in_window s e (r fc) \<and> r ''status_name'' = StrC ''Succeed'')
                        (rows adj) \<and>
           (\<forall>r\<in>set (rows out).
              (\<exists>t. r fc = TimeC t \<and> to_ns s \<le> t \<and> t < to_ns e) \<and>
              r ''status_name'' = StrC ''Succeed'')"
proof -
  from assms obtain st1 where t: "filter_data_time_try env df fc (emit FilterStartInfo st) = (st1, None)"
    and o: "out = DF st1"
    by (auto simp: filter_data_time_def split: prod.splits option.splits)
  from filter_data_time_try_None [OF t] obtain r0 rs un_c cfg adj s e name where
    a: "rows df = r0 # rs" "r0 ''client_id'' = IntC un_c" "map_of CLIENTS un_c = Some cfg"
       "adjust_times env (plus_time cfg) df = Inr adj"
       "start_date (emit FilterStartInfo st) = Some s" "end_date (emit FilterStartInfo st) = Some e"
    and st1: "st1 = emit (FilterDoneInfo name)
                   ((emit FilterStartInfo st)\<lparr>client_name := name,
                       DF := adj\<lparr>rows := filter (\<lambda>r. r ''status_name'' = StrC ''Succeed'')
                                         (filter (\<lambda>r. in_window s e (r fc)) (rows adj))\<rparr>\<rparr>)"
    by blast
  have r: "rows out = filter (\<lambda>r. in_window s e (r fc) \<and> r ''status_name'' = StrC ''Succeed'') (rows adj)"
    by (simp add: o st1 emit_def conj_commute)
  have "\<forall>r\<in>set (rows out). (\<exists>t. r fc = TimeC t \<and> to_ns s \<le> t \<and> t < to_ns e) \<and>
              r ''status_name'' = StrC ''Succeed''"
    unfolding r by (simp add: in_window_iff)
  with a r show ?thesis by (simp add: emit_def) 
qed

theorem filter_data_time_window_witness:
  "\<exists>st' out. filter_data_time example_env normalized_frame ''accepted_at'' window_state
                = (st', Inr out) \<and>
     map (\<lambda>r. r ''external_id'') (rows out) = [StrC ''tx-1''] \<and>
     list_all (\<lambda>r. \<exists>t. r ''accepted_at'' = TimeC t \<and> 1731888000000000000 \<le> t \<and>
                         t < 1731974400000000000) (rows out) \<and>
     list_all (\<lambda>r. r ''status_name'' = StrC ''Succeed'') (rows out)"
proof -
  define R where "R = filter_data_time example_env normalized_frame ''accepted_at'' window_state"
  have "R = (fst R, Inr (DF (fst R)))"
    unfolding R_def by (simp add: filter_defs example_defs)
  then have run: "filter_data_time example_env normalized_frame ''accepted_at'' window_state
                    = (fst R, Inr (DF (fst R)))"
    unfolding R_def .
  have ids: "map (\<lambda>r. r ''external_id'') (rows (DF (fst R))) = [StrC ''tx-1'']"
    unfolding R_def by (simp add: filter_defs example_defs)
  from filter_data_time_window [OF run] obtain s e where
    se: "start_date window_state = Some s" "end_date window_state = Some e"
    and all: "\<forall>r\<in>set (rows (DF (fst R))).
                (\<exists>t. r ''accepted_at'' = TimeC t \<and> to_ns s \<le> t \<and> t < to_ns e) \<and>
                r ''status_name'' = StrC ''Succeed''"
    by blast
  from se have "to_ns s = 1731888000000000000" "to_ns e = 1731974400000000000"
    by (auto simp: window_state_def to_ns_def to_microseconds_def)
  with all have in_w:
    "list_all (\<lambda>r. \<exists>t. r ''accepted_at'' = TimeC t \<and> 1731888000000000000 \<le> t \<and>
                        t < 1731974400000000000) (rows (DF (fst R)))"
    and ok: "list_all (\<lambda>r. r ''status_name'' = StrC ''Succeed'') (rows (DF (fst R)))"
    by (simp_all add: list_all_iff)
  show ?thesis
    by (rule exI [of _ "fst R"], rule exI [of _ "DF (fst R)"]) (intro conjI run ids in_w ok)
qed


text \<open>The name that \<open>filter_data_time\<close> stores is the one resolved on the rows of the
  adjusted frame that lie in the window, before the filter on the status.\<close>

lemma filter_data_time_client_name:
  assumes "filter_data_time env df fc st = (st', Inr out)"
  shows "\<exists>(cfg::client_config) adj s e.
           adjust_times env (plus_time cfg) df = Inr adj \<and>
           start_date st = Some s \<and> end_date st = Some e \<and>
           resolve_client_name (adj\<lparr>rows := filter (\<lambda>r. in_window s e (r fc)) (rows adj)\<rparr>)
             = Inr (client_name st')"
proof -
  from assms obtain st1 where
    t: "filter_data_time_try env df fc (emit FilterStartInfo st) = (st1, None)"
    and o: "st' = st1"
    by (auto simp: filter_data_time_def split: prod.splits option.splits)
  from filter_data_time_try_None [OF t] obtain r0 rs un_c cfg adj s e name where
    "rows df = r0 # rs" "r0 ''client_id'' = IntC un_c" "map_of CLIENTS un_c = Some cfg"
    and a: "adjust_times env (plus_time cfg) df = Inr adj"
       "start_date (emit FilterStartInfo st) = Some s"
       "end_date (emit FilterStartInfo st) = Some e"
       "resolve_client_name (adj\<lparr>rows := filter (\<lambda>r. in_window s e (r fc)) (rows adj)\<rparr>)
          = Inr name"
    and st1: "st1 = emit (FilterDoneInfo name)
                ((emit FilterStartInfo st)\<lparr>client_name := name,
                   DF := adj\<lparr>rows := filter (\<lambda>r. r ''status_name'' = StrC ''Succeed'')
                                     (filter (\<lambda>r. in_window s e (r fc)) (rows adj))\<rparr>\<rparr>)"
    by blast
  have n: "client_name st' = name" by (simp add: o st1)
  from a have "adjust_times env (plus_time cfg) df = Inr adj \<and>
           start_date st = Some s \<and> end_date st = Some e \<and>
           resolve_client_name (adj\<lparr>rows := filter (\<lambda>r. in_window s e (r fc)) (rows adj)\<rparr>)
             = Inr (client_name st')"
    by (simp add: n)
  then show ?thesis by blast
qed

subsection \<open>The window computed by the runner\<close>

lemma create_df_dates:
  "create_df env c s e st = (st', df) \<Longrightarrow>
     start_date st' = start_date st \<and> end_date st' = end_date st"
  by (auto simp: create_df_def Let_def split: sum.splits)

lemma set_new_col_dates:
  "set_new_col env df st = (st', r) \<Longrightarrow>
     start_date st' = start_date st \<and> end_date st' = end_date st"
  by (auto simp: set_new_col_def Let_def split: sum.splits)

lemma filter_data_time_try_dates:
  "filter_data_time_try env df fc st = (st', r) \<Longrightarrow>
     start_date st' = start_date st \<and> end_date st' = end_date st"
  unfolding filter_data_time_try_def Let_def
  by (auto split: if_splits list.splits option.splits sum.splits cell.splits)

lemma filter_data_time_dates:
  "filter_data_time env df fc st = (st', r) \<Longrightarrow>
     start_date st' = start_date st \<and> end_date st' = end_date st"
  by (auto simp: filter_data_time_def split: prod.splits option.splits
           dest!: filter_data_time_try_dates)

lemma shift_time_column_dates:
  "shift_time_column env c st = (st', r) \<Longrightarrow>
     start_date st' = start_date st \<and> end_date st' = end_date st"
  by (auto simp: shift_time_column_def Let_def split: sum.splits if_splits)

lemma write_report_dates:
  "write_report env st = (st', r) \<Longrightarrow>
     start_date st' = start_date st \<and> end_date st' = end_date st"
  by (auto simp: write_report_def Let_def split: sum.splits option.splits)

lemma result_save_dates:
  "result_save env st = (st', r) \<Longrightarrow>
     start_date st' = start_date st \<and> end_date st' = end_date st"
  by (auto simp: result_save_def Let_def split: sum.splits option.splits prod.splits if_splits
           dest!: shift_time_column_dates write_report_dates)

lemma activate_client_window:
  assumes "get_current_day (clock_now env (fst item)) 0 = Inr (s, e)"
  shows "start_date (fst (activate_client env item st)) = Some s"
    and "end_date (fst (activate_client env item st)) = Some e"
proof -
  define st3 where "st3 = (emit (WindowInfo s e)
      ((emit (ClientStartInfo (fst item)) st)\<lparr>col_filter := columns_filter (snd item)\<rparr>))
        \<lparr>start_date := Some s, end_date := Some e\<rparr>"
  obtain st4 df where c: "create_df env (fst item) s e st3 = (st4, df)" by fastforce
  have d4: "start_date st4 = Some s \<and> end_date st4 = Some e"
    using create_df_dates [OF c] by (simp add: st3_def)
  have "start_date (fst (activate_client env item st)) = Some s \<and>
        end_date (fst (activate_client env item st)) = Some e"
    using assms c d4
    by (auto simp: activate_client_def Let_def st3_def [symmetric]
         split: sum.splits option.splits prod.splits
         dest!: set_new_col_dates filter_data_time_dates result_save_dates)
  then show "start_date (fst (activate_client env item st)) = Some s"
    and "end_date (fst (activate_client env item st)) = Some e" by simp_all
qed

lemmas run_defs =
  activate_def activate_client_def create_df_def get_current_day_def minus_days_def
  replace_hour_def weekday_def is_empty_def

text \<open>
  C2, as stated: the window that the runner computes for a client has start and end
  hour equal to the client's offset. Client 1235 is configured with offset 3; in the
  concrete run the window of its iteration starts and ends at hour 0.
\<close>

theorem runner_window_counterexample:
  "late_client \<in> set CLIENTS \<and> plus_time (snd late_client) = 3 \<and>
   map_option hour (start_date (fst (activate_client example_env late_client example_state)))
     = Some 0 \<and>
   map_option hour (end_date (fst (activate_client example_env late_client example_state)))
     = Some 0"
  by (simp add: late_client_def CLIENTS_def run_defs Let_def example_defs emit_def)

text \<open>
  C2, amended: \<open>activate\<close> calls \<open>get_current_day\<close> without an argument, so with the
  default offset 0: for every client, whatever its configured offset, the window stored
  by its iteration is the one \<open>get_current_day\<close> returns for offset 0, and its start and
  end have hour 0 and minute, second and microsecond 0. (The clock is assumed to read a
  valid datetime from 0001-01-04 on.)
\<close>

theorem runner_window_hours:
  assumes "valid_datetime (clock_now env (fst item))" and "3 < ordinal (clock_now env (fst item))"
  shows "\<exists>s e. get_current_day (clock_now env (fst item)) 0 = Inr (s, e) \<and>
           start_date (fst (activate_client env item st)) = Some s \<and>
           end_date (fst (activate_client env item st)) = Some e \<and>
           hour s = 0 \<and> hour e = 0 \<and> minute s = 0 \<and> minute e = 0 \<and>
           second s = 0 \<and> second e = 0 \<and> microsecond s = 0 \<and> microsecond e = 0"
proof -
  from get_current_day_total [OF assms, of 0] obtain s e
    where w: "get_current_day (clock_now env (fst item)) 0 = Inr (s, e)" by auto
  note se = get_current_day_Inr(1,2) [OF w]
  have "hour s = 0 \<and> hour e = 0 \<and> minute s = 0 \<and> minute e = 0 \<and>
        second s = 0 \<and> second e = 0 \<and> microsecond s = 0 \<and> microsecond e = 0"
    by (simp add: se)
  with w activate_client_window [OF w] show ?thesis by blast
qed

theorem runner_window_hours_witness:
  "valid_datetime (clock_now example_env (fst late_client)) \<and>
   3 < ordinal (clock_now example_env (fst late_client)) \<and>
   map_option hour (start_date (fst (activate_client example_env late_client example_state)))
     = Some 0"
proof -
  have v: "valid_datetime (clock_now example_env (fst late_client))"
    and o: "3 < ordinal (clock_now example_env (fst late_client))"
    by (simp_all add: example_env_def example_now_def valid_datetime_def)
  from runner_window_hours [OF v o, of example_state] obtain s where
    "start_date (fst (activate_client example_env late_client example_state)) = Some s"
    "hour s = 0" by blast
  then have "map_option hour (start_date (fst (activate_client example_env late_client example_state))) = Some 0"
    by simp
  with v o show ?thesis by (intro conjI)
qed

subsection \<open>Normalization\<close>

lemma columns_assign:
  "columns (assign df c f) = (if c \<in> set (columns df) then columns df else columns df @ [c])"
  by (simp add: assign_def)

lemma rows_assign4:
  "rows (assign (assign (assign (assign df ''amount''
       (\<lambda>r. if r ''transaction_type'' = StrC ''withdraw'' then r ''accepted_amount''
              else cell_at df r ''amount''))
       ''amount'' (\<lambda>r. if cell_is_zero env (r ''amount'') then r ''accepted_amount'' else r ''amount''))
       ''status_name'' (\<lambda>r. translate (r ''status_name'')))
       ''overall_commission'' (\<lambda>r. commission_cell env (r ''mid_commission'')
                               (r ''service_commission'') (r ''accepted_amount'')))
   = map (normalize_row env df) (rows df)"
  by (simp add: assign_def normalize_row_def Let_def comp_def)

lemma frame4:
  assumes "''status_name'' \<in> set (columns df)"
  shows "assign (assign (assign (assign df ''amount''
       (\<lambda>r. if r ''transaction_type'' = StrC ''withdraw'' then r ''accepted_amount''
              else cell_at df r ''amount''))
       ''amount'' (\<lambda>r. if cell_is_zero env (r ''amount'') then r ''accepted_amount'' else r ''amount''))
       ''status_name'' (\<lambda>r. translate (r ''status_name'')))
       ''overall_commission'' (\<lambda>r. commission_cell env (r ''mid_commission'')
                               (r ''service_commission'') (r ''accepted_amount''))
   = df\<lparr>columns := normalized_columns (columns df),
         rows := map (normalize_row env df) (rows df)\<rparr>"
proof (rule dataframe.equality)
  show "columns (assign (assign (assign (assign df ''amount''
       (\<lambda>r. if r ''transaction_type'' = StrC ''withdraw'' then r ''accepted_amount''
              else cell_at df r ''amount''))
       ''amount'' (\<lambda>r. if cell_is_zero env (r ''amount'') then r ''accepted_amount'' else r ''amount''))
       ''status_name'' (\<lambda>r. translate (r ''status_name'')))
       ''overall_commission'' (\<lambda>r. commission_cell env (r ''mid_commission'')
                               (r ''service_commission'') (r ''accepted_amount'')))
     = columns (df\<lparr>columns := normalized_columns (columns df),
         rows := map (normalize_row env df) (rows df)\<rparr>)"
    using assms by (simp add: columns_assign normalized_columns_def)
qed (simp add: rows_assign4, simp add: assign_def)

lemma float3:
  "list_all (\<lambda>r. is_float (r ''mid_commission'') \<and> is_float (r ''service_commission'') \<and>
                  is_float (r ''accepted_amount''))
     (rows (assign (assign (assign df ''amount'' f) ''amount'' g) ''status_name'' h))
   = list_all (\<lambda>r. is_float (r ''mid_commission'') \<and> is_float (r ''service_commission'') \<and>
                  is_float (r ''accepted_amount'')) (rows df)"
  by (simp add: assign_def list_all_iff)

lemma set_new_col_try_unfold:
  "set_new_col_try env col df =
     (if ''accepted_amount'' \<notin> set (columns df) then Inl (KeyError ''accepted_amount'')
      else if ''transaction_type'' \<notin> set (columns df) then Inl (KeyError ''transaction_type'')
      else if ''status_name'' \<notin> set (columns df) then Inl (KeyError ''status_name'')
      else if ''mid_commission'' \<notin> set (columns df) then Inl (KeyError ''mid_commission'')
      else if ''service_commission'' \<notin> set (columns df)
        then Inl (KeyError ''service_commission'')
      else if \<not> list_all (\<lambda>r. is_float (r ''mid_commission'') \<and>
                              is_float (r ''service_commission'') \<and>
                              is_float (r ''accepted_amount'')) (rows df)
        then Inl TypeError
      else if ''external_id'' \<notin> set (columns df) then Inl (KeyError ''external_id'')
      else sort_values (sort_order env) col
             (df\<lparr>columns := normalized_columns (columns df),
                 rows := keep_first (\<lambda>r. r ''external_id'') []
                           (map (normalize_row env df) (rows df))\<rparr>))"
  unfolding set_new_col_try_def Let_def float3
  by (auto simp: frame4 columns_assign drop_duplicates_def normalized_columns_def)

lemma floats_preserved:
  assumes "list_all (\<lambda>r. is_float (r ''mid_commission'') \<and> is_float (r ''service_commission'') \<and>
                    is_float (r ''accepted_amount'')) (rows df)"
    and "set S \<subseteq> normalize_row env df ` set (rows df)"
  shows "list_all (\<lambda>r. is_float (r ''mid_commission'') \<and> is_float (r ''service_commission'') \<and>
                    is_float (r ''accepted_amount'')) S"
proof -
  have "is_float (normalize_row env df r ''mid_commission'') = is_float (r ''mid_commission'')"
       "is_float (normalize_row env df r ''service_commission'') = is_float (r ''service_commission'')"
       "is_float (normalize_row env df r ''accepted_amount'') = is_float (r ''accepted_amount'')" for r
    by (simp_all add: normalize_row_def Let_def)
  note h = this
  show ?thesis
    unfolding list_all_iff
  proof
    fix r assume "r \<in> set S"
    with assms(2) obtain r0 where r0: "r0 \<in> set (rows df)" "r = normalize_row env df r0"
      by auto
    from assms(1) r0(1) have "is_float (r0 ''mid_commission'') \<and>
        is_float (r0 ''service_commission'') \<and> is_float (r0 ''accepted_amount'')"
      by (simp add: list_all_iff)
    then show "is_float (r ''mid_commission'') \<and> is_float (r ''service_commission'') \<and>
        is_float (r ''accepted_amount'')"
      by (simp add: r0(2) h)
  qed
qed

lemma nc_idem: "normalized_columns (normalized_columns cs) = normalized_columns cs"
  by (simp add: normalized_columns_def)

lemma nc_has: "''amount'' \<in> set (normalized_columns cs)" "''overall_commission'' \<in> set (normalized_columns cs)"
  "set cs \<subseteq> set (normalized_columns cs)"
  by (auto simp: normalized_columns_def)

lemma set_new_col_try_Inr:
  assumes "set_new_col_try env col df = Inr out"
  shows "''accepted_amount'' \<in> set (columns df)" "''transaction_type'' \<in> set (columns df)"
    "''status_name'' \<in> set (columns df)" "''mid_commission'' \<in> set (columns df)"
    "''service_commission'' \<in> set (columns df)"
    "list_all (\<lambda>r. is_float (r ''mid_commission'') \<and> is_float (r ''service_commission'') \<and>
                    is_float (r ''accepted_amount'')) (rows df)"
    "''external_id'' \<in> set (columns df)"
    "sort_values (sort_order env) col
       (df\<lparr>columns := normalized_columns (columns df),
           rows := keep_first (\<lambda>r. r ''external_id'') []
                     (map (normalize_row env df) (rows df))\<rparr>) = Inr out"
proof -
  note u = assms [unfolded set_new_col_try_unfold]
  show a1: "''accepted_amount'' \<in> set (columns df)"
    using u by (rule_tac ccontr) simp
  show a2: "''transaction_type'' \<in> set (columns df)"
    using u a1 by (rule_tac ccontr) simp
  show a3: "''status_name'' \<in> set (columns df)"
    using u a1 a2 by (rule_tac ccontr) simp
  show a4: "''mid_commission'' \<in> set (columns df)"
    using u a1 a2 a3 by (rule_tac ccontr) simp
  show a5: "''service_commission'' \<in> set (columns df)"
    using u a1 a2 a3 a4 by (rule_tac ccontr) simp
  show a6: "list_all (\<lambda>r. is_float (r ''mid_commission'') \<and> is_float (r ''service_commission'') \<and>
                    is_float (r ''accepted_amount'')) (rows df)"
    using u a1 a2 a3 a4 a5 by (rule_tac ccontr) simp
  show a7: "''external_id'' \<in> set (columns df)"
    using u a1 a2 a3 a4 a5 a6 by (rule_tac ccontr) simp
  show "sort_values (sort_order env) col
       (df\<lparr>columns := normalized_columns (columns df),
           rows := keep_first (\<lambda>r. r ''external_id'') []
                     (map (normalize_row env df) (rows df))\<rparr>) = Inr out"
    using u a1 a2 a3 a4 a5 a6 a7 by simp
qed

lemma translate_twice: "translate (translate c) = Null"
  by (cases c) (auto split: option.splits)

lemma normalize_row_apply:
  "normalize_row env df r x =
     (if x = ''overall_commission''
      then commission_cell env (r ''mid_commission'') (r ''service_commission'')
             (r ''accepted_amount'')
      else if x = ''status_name'' then translate (r ''status_name'')
      else if x = ''amount'' then backfilled_amount env df r
      else r x)"
  by (simp add: normalize_row_def backfilled_amount_def Let_def)

lemma backfilled_amount_twice:
  assumes "''amount'' \<in> set (columns out)"
  shows "backfilled_amount env out (normalize_row env df r) = backfilled_amount env df r"
proof -
  have "backfilled_amount env out (normalize_row env df r) =
          (let a = (if r ''transaction_type'' = StrC ''withdraw'' then r ''accepted_amount''
                    else backfilled_amount env df r)
           in if cell_is_zero env a then r ''accepted_amount'' else a)"
    using assms
    by (simp add: backfilled_amount_def [of env out] normalize_row_apply cell_at_def Let_def
          cong: if_cong)
  also have "\<dots> = backfilled_amount env df r"
    by (simp add: backfilled_amount_def Let_def cong: if_cong)
  finally show ?thesis .
qed

lemma normalize_row_twice:
  assumes "''amount'' \<in> set (columns out)"
  shows "normalize_row env out (normalize_row env df r)
           = (normalize_row env df r)(''status_name'' := Null)"
proof (rule ext)
  fix x
  show "normalize_row env out (normalize_row env df r) x
          = ((normalize_row env df r)(''status_name'' := Null)) x"
    by (simp add: normalize_row_apply [of env out] backfilled_amount_twice [OF assms]
          translate_twice)
       (simp add: normalize_row_apply translate_twice)
qed

lemma keep_first_id:
  "distinct (map k xs) \<Longrightarrow> set (map k xs) \<inter> set seen = {} \<Longrightarrow> keep_first k seen xs = xs"
  by (induction xs arbitrary: seen) auto

lemma sort_values_Inr:
  assumes "sort_values order c df = Inr out"
  shows "\<exists>idx. order (map (\<lambda>r. r c) (rows df)) = Inr idx \<and>
           (\<forall>i\<in>set idx. i < length (rows df)) \<and>
           out = df\<lparr>rows := map (\<lambda>i. rows df ! i) idx\<rparr>"
    and "c \<in> set (columns df)"
  using assms
  by (auto simp: sort_values_def list_all_iff split: if_splits sum.splits)

lemma distinct_keys_taken:
  assumes "distinct (map k xs)" and "distinct idx" and "\<forall>i\<in>set idx. i < length xs"
  shows "distinct (map k (map (\<lambda>i. xs ! i) idx))"
proof -
  have inj: "inj_on (\<lambda>i. map k xs ! i) (set idx)"
    using assms(1,3) by (intro inj_on_nth) simp_all
  have eq: "map k (map (\<lambda>i. xs ! i) idx) = map (\<lambda>i. map k xs ! i) idx"
    using assms(3) by simp
  have "distinct (map (\<lambda>i. map k xs ! i) idx)"
    using assms(2) inj by (simp only: distinct_map)
  then show ?thesis by (simp only: eq)
qed

lemma set_taken:
  assumes "\<forall>i\<in>set idx. i < length xs"
  shows "set (map (\<lambda>i. xs ! i) idx) \<subseteq> set xs"
  using assms by auto

lemma snd_set_new_col:
  "snd (set_new_col env df st) = set_new_col_try env (col_filter st) df"
  by (simp add: set_new_col_def Let_def split: sum.splits)

lemma set_new_col_try_twice:
  assumes "set_new_col_try env col df = Inr out" and "permuting (sort_order env)"
  shows "set_new_col_try env col out =
           sort_values (sort_order env) col
             (out\<lparr>rows := map (\<lambda>r. r(''status_name'' := Null)) (rows out)\<rparr>)"
proof -
  let ?N = "normalize_row env df"
  let ?u = "\<lambda>r::'a row. r(''status_name'' := Null)"
  let ?k = "\<lambda>r::'a row. r ''external_id''"
  let ?D = "keep_first ?k [] (map ?N (rows df))"
  let ?F = "df\<lparr>columns := normalized_columns (columns df), rows := ?D\<rparr>"
  note c = set_new_col_try_Inr(1-5,7) [OF assms(1)]
  note fl = set_new_col_try_Inr(6) [OF assms(1)]
  note sv = set_new_col_try_Inr(8) [OF assms(1)]
  from sort_values_Inr(1) [OF sv] obtain idx where
    ord: "sort_order env (map (\<lambda>r. r col) (rows ?F)) = Inr idx"
    and rng0: "\<forall>i\<in>set idx. i < length (rows ?F)"
    and out0: "out = ?F\<lparr>rows := map (\<lambda>i. rows ?F ! i) idx\<rparr>"
    by blast
  have rng: "\<forall>i\<in>set idx. i < length ?D" using rng0 by simp
  have di: "distinct idx"
    using assms(2) ord unfolding permuting_def by blast
  have co: "columns out = normalized_columns (columns df)"
    and ro: "rows out = map (\<lambda>i. ?D ! i) idx"
    by (simp_all add: out0)
  have nc: "normalized_columns (columns out) = columns out" "''amount'' \<in> set (columns out)"
    by (simp_all add: co nc_idem nc_has)
  have cols: "set (columns df) \<subseteq> set (columns out)"
    by (simp add: co nc_has)
  have "set (rows out) \<subseteq> set ?D"
    unfolding ro using rng by (rule set_taken)
  moreover have "set ?D \<subseteq> ?N ` set (rows df)"
    using keep_first_subset [of ?k "[]" "map ?N (rows df)"] by simp
  ultimately have sub: "set (rows out) \<subseteq> ?N ` set (rows df)"
    by (rule subset_trans)
  have map_eq: "map (normalize_row env out) (rows out) = map ?u (rows out)"
  proof (rule map_cong [OF refl])
    fix r assume "r \<in> set (rows out)"
    with sub have "r \<in> ?N ` set (rows df)" by (rule subsetD)
    then obtain r0 where "r = ?N r0" by (rule imageE)
    then show "normalize_row env out r = ?u r"
      by (simp add: normalize_row_twice [OF nc(2)])
  qed
  have fl': "list_all (\<lambda>r. is_float (r ''mid_commission'') \<and> is_float (r ''service_commission'') \<and>
                    is_float (r ''accepted_amount'')) (rows out)"
    using fl sub by (rule floats_preserved)
  have "distinct (map ?k ?D)"
    by (rule keep_first_distinct)
  then have "distinct (map ?k (rows out))"
    unfolding ro using di rng by (rule distinct_keys_taken)
  then have "distinct (map ?k (map ?u (rows out)))"
    by (simp add: comp_def)
  then have kf: "keep_first ?k [] (map ?u (rows out)) = map ?u (rows out)"
    by (intro keep_first_id) simp_all
  have D2: "keep_first ?k [] (map (normalize_row env out) (rows out)) = map ?u (rows out)"
    by (simp only: map_eq kf)
  have c': "''accepted_amount'' \<in> set (columns out)" "''transaction_type'' \<in> set (columns out)"
    "''status_name'' \<in> set (columns out)" "''mid_commission'' \<in> set (columns out)"
    "''service_commission'' \<in> set (columns out)" "''external_id'' \<in> set (columns out)"
    using c cols by blast+
  have "set_new_col_try env col out =
          sort_values (sort_order env) col
            (out\<lparr>columns := normalized_columns (columns out),
                 rows := keep_first ?k [] (map (normalize_row env out) (rows out))\<rparr>)"
    using c' fl' by (simp add: set_new_col_try_unfold)
  also have "out\<lparr>columns := normalized_columns (columns out),
                 rows := keep_first ?k [] (map (normalize_row env out) (rows out))\<rparr>
             = out\<lparr>rows := map ?u (rows out)\<rparr>"
    by (simp only: D2 nc(1)) simp
  finally show ?thesis .
qed

lemma text_order_permuting: "permuting text_order"
  unfolding permuting_def text_order_def
  by (auto split: if_splits)

lemmas normalize_defs =
  set_new_col_def set_new_col_try_unfold normalize_row_apply backfilled_amount_def
  normalized_columns_def sort_values_def text_order_def cell_at_def Let_def STATUS_DICT_def
  round3_def

lemma normalized_once_run:
  "snd (set_new_col example_env example_frame window_state) = Inr normalized_once"
  by (simp add: normalized_once_def normalize_defs example_defs)

text \<open>
  C3, as stated: normalizing the output of a normalization leaves every column of every
  row unchanged. In the concrete run the first normalization gives one row with the label
  "Succeed"; the second maps the labels through \<open>STATUS_DICT\<close> again, whose keys are the
  integer codes, so the row comes out with a missing \<open>status_name\<close>.
\<close>

theorem set_new_col_twice_counterexample:
  "snd (set_new_col example_env example_frame window_state) = Inr normalized_once \<and>
   snd (set_new_col example_env normalized_once window_state) = Inr normalized_twice \<and>
   map (\<lambda>r. r ''status_name'') (rows normalized_once) = [StrC ''Succeed''] \<and>
   map (\<lambda>r. r ''status_name'') (rows normalized_twice) = [Null]"
  by (simp add: normalized_twice_def normalized_once_def normalize_defs example_defs)

text \<open>
  C3, amended: when \<open>set_new_col\<close> succeeds on a frame, applying it again to its output
  (sorting by the same column) does nothing but make \<open>status_name\<close> missing in every row
  and sort the rows again: its result is that of \<open>sort_values\<close> on the output with
  \<open>status_name\<close> missing. So when the second run succeeds, the columns are the same and
  the rows are those of the first output, each exactly once, with \<open>status_name\<close> missing
  and every other value unchanged; their order is the one the sort gives, which need not
  be the order of the first output, since the sort of pandas is not stable by default.
  The sort is only assumed to return a permutation of the positions.
\<close>

theorem set_new_col_twice:
  assumes "set_new_col env df st = (st1, Inr out)" and "col_filter st2 = col_filter st"
    and "permuting (sort_order env)"
  shows "snd (set_new_col env out st2) =
           sort_values (sort_order env) (col_filter st)
             (out\<lparr>rows := map (\<lambda>r. r(''status_name'' := Null)) (rows out)\<rparr>) \<and>
         (\<forall>out2. snd (set_new_col env out st2) = Inr out2 \<longrightarrow>
            columns out2 = columns out \<and>
            (\<exists>idx. distinct idx \<and> set idx = {0..<length (rows out)} \<and>
               rows out2 = map (\<lambda>i. (rows out ! i)(''status_name'' := Null)) idx))"
proof -
  let ?u = "\<lambda>r::'a row. r(''status_name'' := Null)"
  let ?G = "out\<lparr>rows := map ?u (rows out)\<rparr>"
  from assms(1) have "snd (set_new_col env df st) = Inr out" by simp
  then have first: "set_new_col_try env (col_filter st) df = Inr out"
    by (simp only: snd_set_new_col)
  have second: "snd (set_new_col env out st2) = sort_values (sort_order env) (col_filter st) ?G"
    using set_new_col_try_twice [OF first assms(3)] by (simp only: snd_set_new_col assms(2))
  have "columns out2 = columns out \<and>
        (\<exists>idx. distinct idx \<and> set idx = {0..<length (rows out)} \<and>
           rows out2 = map (\<lambda>i. ?u (rows out ! i)) idx)"
    if r: "snd (set_new_col env out st2) = Inr out2" for out2
  proof -
    from r second have sv: "sort_values (sort_order env) (col_filter st) ?G = Inr out2"
      by simp
    from sort_values_Inr(1) [OF sv] obtain idx where
      ord: "sort_order env (map (\<lambda>r. r (col_filter st)) (rows ?G)) = Inr idx"
      and rng: "\<forall>i\<in>set idx. i < length (rows ?G)"
      and o2: "out2 = ?G\<lparr>rows := map (\<lambda>i. rows ?G ! i) idx\<rparr>"
      by blast
    from assms(3) ord have p: "distinct idx"
      "set idx = {0..<length (map (\<lambda>r. r (col_filter st)) (rows ?G))}"
      unfolding permuting_def by blast+
    have "rows out2 = map (\<lambda>i. ?u (rows out ! i)) idx"
      using rng by (simp add: o2)
    moreover have "columns out2 = columns out" by (simp add: o2)
    moreover have "set idx = {0..<length (rows out)}" using p(2) by simp
    ultimately show ?thesis using p(1) by blast
  qed
  with second show ?thesis by blast
qed

theorem set_new_col_twice_witness:
  "set_new_col example_env example_frame window_state
     = (fst (set_new_col example_env example_frame window_state), Inr normalized_once) \<and>
   permuting (sort_order example_env) \<and>
   snd (set_new_col example_env normalized_once window_state) =
     sort_values (sort_order example_env) (col_filter window_state)
       (normalized_once\<lparr>rows := map (\<lambda>r. r(''status_name'' := Null)) (rows normalized_once)\<rparr>)"
proof -
  have run: "set_new_col example_env example_frame window_state
     = (fst (set_new_col example_env example_frame window_state), Inr normalized_once)"
    using normalized_once_run by (simp add: prod_eq_iff)
  have p: "permuting (sort_order example_env)"
    using text_order_permuting by (simp add: example_env_def)
  from set_new_col_twice [OF run refl p] run p show ?thesis by (intro conjI) simp_all
qed

subsection \<open>The runner\<close>


























subsection \<open>The module\<close>


end
